theory Spec2Isabelle
  imports Complex_Main "HOL-Library.Char_ord" "HOL-Library.List_Lexorder"
begin

section \<open>Shared vocabulary of the two programs\<close>

text \<open>
  The repository holds two Python modules: \<^verbatim>\<open>dags/train_pipeline.py\<close> (the training
  job) and \<^verbatim>\<open>api/main.py\<close> (the serving endpoint). Both are thin orchestration around
  pandas, scikit-learn, joblib and FastAPI. The embedding below keeps the control flow of
  the two modules as written and takes the library calls whose internals are not part of
  the repository (CSV parsing, fitting, pickling, the fitted model's two capabilities,
  Python's \<^verbatim>\<open>int()\<close>) as function parameters that may fail.

  Floating-point values are never computed with by either module: they are carried from
  the request into the frame and from the model into the response. They are therefore an
  opaque type parameter \<open>'f\<close>, standing for the floating-point numbers other than NaN;
  where the label encoder sorts them, \<open>'f\<close> is linearly ordered. A missing cell of a
  frame (pandas' NaN) is \<open>None\<close>. Log lines and the final \<^verbatim>\<open>print\<close> are not
  modelled.
\<close>

subsection \<open>Exceptions\<close>

text \<open>
  A raised exception is a value: its class name and the text that \<^verbatim>\<open>str(e)\<close> yields.
  Only instances of \<^verbatim>\<open>Exception\<close> are modelled (interpreter signals such as
  \<^verbatim>\<open>KeyboardInterrupt\<close> are not).
\<close>

datatype error = Error (error_class: string) (str: string)

definition FileNotFoundError :: "string \<Rightarrow> error" where
  "FileNotFoundError m = Error ''FileNotFoundError'' m"

definition IsADirectoryError :: "string \<Rightarrow> error" where
  "IsADirectoryError m = Error ''IsADirectoryError'' m"

definition FileExistsError :: "string \<Rightarrow> error" where
  "FileExistsError m = Error ''FileExistsError'' m"

definition IndexError :: "string \<Rightarrow> error" where
  "IndexError m = Error ''IndexError'' m"

text \<open>
  \<^verbatim>\<open>str(KeyError(m))\<close> is \<^verbatim>\<open>repr(m)\<close>. The only messages built here contain single
  quotes and no double quote, no backslash and no control character, for which
  \<^verbatim>\<open>repr\<close> wraps the text in double quotes; otherwise single quotes are used.
\<close>

definition py_repr :: "string \<Rightarrow> string" where
  "py_repr m =
     (if CHR 0x27 \<in> set m \<and> CHR 0x22 \<notin> set m then [CHR 0x22] @ m @ [CHR 0x22]
      else [CHR 0x27] @ m @ [CHR 0x27])"

definition KeyError :: "string \<Rightarrow> error" where
  "KeyError m = Error ''KeyError'' (py_repr m)"

text \<open>Sequencing of fallible steps: the first exception aborts what follows.\<close>

definition bind :: "error + 'a \<Rightarrow> ('a \<Rightarrow> error + 'b) \<Rightarrow> error + 'b" where
  "bind r f = (case r of Inl e \<Rightarrow> Inl e | Inr x \<Rightarrow> f x)"

subsection \<open>The filesystem\<close>

text \<open>
  The filesystem as a process sees it: regular files with their contents, and the set of
  directories. Paths are the strings handed to the operating system.
\<close>

record 'b filesystem =
  files :: "string \<rightharpoonup> 'b"
  dirs :: "string set"

definition path_exists :: "'b filesystem \<Rightarrow> string \<Rightarrow> bool" where
  \<comment> \<open>\<^verbatim>\<open>os.path.exists\<close>\<close>
  "path_exists fs p = (files fs p \<noteq> None \<or> p \<in> dirs fs)"

definition read_file :: "'b filesystem \<Rightarrow> string \<Rightarrow> error + 'b" where
  \<comment> \<open>\<^verbatim>\<open>open(p, 'rb').read()\<close>\<close>
  "read_file fs p =
     (case files fs p of
        Some b \<Rightarrow> Inr b
      | None \<Rightarrow>
          if p \<in> dirs fs
          then Inl (IsADirectoryError (''[Errno 21] Is a directory: '' @ py_repr p))
          else Inl (FileNotFoundError (''[Errno 2] No such file or directory: '' @ py_repr p)))"

section \<open>The path constants\<close>

definition train_DATA_PATH :: string where
  \<comment> \<open>\<^verbatim>\<open>DATA_PATH\<close> of \<^verbatim>\<open>dags/train_pipeline.py\<close>\<close>
  "train_DATA_PATH = ''/opt/airflow/data/dataset.csv''"

definition train_MODEL_PATH :: string where
  \<comment> \<open>\<^verbatim>\<open>MODEL_PATH\<close> of \<^verbatim>\<open>dags/train_pipeline.py\<close>\<close>
  "train_MODEL_PATH = ''/opt/airflow/models/model.pkl''"

definition api_MODEL_PATH :: string where
  \<comment> \<open>\<^verbatim>\<open>MODEL_PATH\<close> of \<^verbatim>\<open>api/main.py\<close>\<close>
  "api_MODEL_PATH = ''models/model.pkl''"



section \<open>Data frames\<close>

text \<open>
  A pandas frame is an ordered list of named columns; a column is a typed vector
  (\<^verbatim>\<open>int64\<close>, \<^verbatim>\<open>float64\<close>, or \<^verbatim>\<open>object\<close> holding strings). Column names of a frame
  parsed from CSV are unique. A blank cell of the CSV file is a missing value: the parser
  stores NaN for it, which turns a column of integers into a \<^verbatim>\<open>float64\<close> column and
  leaves a column of strings an \<^verbatim>\<open>object\<close> column holding strings and NaN. A cell of a
  \<^verbatim>\<open>float64\<close> or \<^verbatim>\<open>object\<close> column is therefore optional, \<open>None\<close> being NaN; an
  \<^verbatim>\<open>int64\<close> column has no missing cell.
\<close>

datatype 'f column =
    IntCol "int list"
  | FloatCol "'f option list"
  | StrCol "string option list"

type_synonym 'f dataframe = "(string \<times> 'f column) list"

definition columns :: "'f dataframe \<Rightarrow> string list" where
  "columns df = map fst df"

definition getitem :: "'f dataframe \<Rightarrow> string \<Rightarrow> error + 'f column" where
  \<comment> \<open>\<^verbatim>\<open>df[k]\<close>\<close>
  "getitem df k = (case map_of df k of Some c \<Rightarrow> Inr c | None \<Rightarrow> Inl (KeyError k))"

fun setitem :: "'f dataframe \<Rightarrow> string \<Rightarrow> 'f column \<Rightarrow> 'f dataframe" where
  \<comment> \<open>\<^verbatim>\<open>df[k] = c\<close>: an existing column is replaced in place, a new one is appended\<close>
  "setitem [] k c = [(k, c)]"
| "setitem ((k', c') # df) k c =
     (if k' = k then (k, c) # df else (k', c') # setitem df k c)"

fun join_comma :: "string list \<Rightarrow> string" where
  "join_comma [] = []"
| "join_comma [x] = x"
| "join_comma (x # y # ys) = x @ '', '' @ join_comma (y # ys)"

definition py_repr_list :: "string list \<Rightarrow> string" where
  \<comment> \<open>\<^verbatim>\<open>repr\<close> of a list of strings\<close>
  "py_repr_list ls = ''['' @ join_comma (map py_repr ls) @ '']''"

definition drop_columns :: "'f dataframe \<Rightarrow> string list \<Rightarrow> error + 'f dataframe" where
  \<comment> \<open>\<^verbatim>\<open>df.drop(columns=labels)\<close> with the default \<^verbatim>\<open>errors='raise'\<close>\<close>
  "drop_columns df labels =
     (let missing = filter (\<lambda>l. l \<notin> set (columns df)) labels
      in if missing \<noteq> []
         then Inl (KeyError (py_repr_list missing @ '' not found in axis''))
         else Inr (filter (\<lambda>kc. fst kc \<notin> set labels) df))"

subsection \<open>The label encoder\<close>

text \<open>
  \<^verbatim>\<open>sklearn.preprocessing.LabelEncoder\<close> is a library class, not code of the
  repository. Its \<^verbatim>\<open>fit_transform(y)\<close> computes \<^verbatim>\<open>classes_\<close> as the sorted distinct
  values of \<open>y\<close> (\<^verbatim>\<open>numpy.unique\<close>, or \<^verbatim>\<open>sorted(set(y))\<close> for strings), with one
  entry for NaN at the end when \<open>y\<close> has a missing value, and returns, for every element
  of \<open>y\<close>, its position in \<^verbatim>\<open>classes_\<close>. Strings compare by code point, which the
  lexicographic order on \<^typ>\<open>string\<close> gives.
\<close>

fun present :: "'a option list \<Rightarrow> 'a list" where
  \<comment> \<open>the values of the cells that are not missing, in order\<close>
  "present [] = []"
| "present (None # ys) = present ys"
| "present (Some v # ys) = v # present ys"

definition classes_of :: "'a::linorder option list \<Rightarrow> 'a option list" where
  "classes_of ys =
     map Some (sort (remdups (present ys))) @ (if None \<in> set ys then [None] else [])"

fun index_of :: "'a \<Rightarrow> 'a list \<Rightarrow> nat" where
  "index_of x [] = 0"
| "index_of x (c # cs) = (if x = c then 0 else Suc (index_of x cs))"

definition LabelEncoder_fit_transform :: "'a::linorder option list \<Rightarrow> int list" where
  "LabelEncoder_fit_transform ys = map (\<lambda>y. int (index_of y (classes_of ys))) ys"

fun fit_transform_column :: "'f::linorder column \<Rightarrow> 'f column" where
  "fit_transform_column (IntCol xs) = IntCol (LabelEncoder_fit_transform (map Some xs))"
| "fit_transform_column (FloatCol xs) = IntCol (LabelEncoder_fit_transform xs)"
| "fit_transform_column (StrCol xs) = IntCol (LabelEncoder_fit_transform xs)"

text \<open>
  The encoding the specification describes, for comparison: codes by order of first
  appearance (what \<^verbatim>\<open>pandas.factorize\<close> would give).
\<close>

fun first_seen :: "'a list \<Rightarrow> 'a list \<Rightarrow> 'a list" where
  "first_seen seen [] = seen"
| "first_seen seen (y # ys) = first_seen (if y \<in> set seen then seen else seen @ [y]) ys"

definition spec_first_seen_codes :: "'a list \<Rightarrow> int list" where
  "spec_first_seen_codes ys = map (\<lambda>y. int (index_of y (first_seen [] ys))) ys"

section \<open>The training job\<close>

definition encode :: "'f::linorder dataframe \<Rightarrow> error + 'f dataframe" where
  \<comment> \<open>lines 25 to 28 of \<^verbatim>\<open>load_data\<close>\<close>
  "encode df =
     (if ''smoker'' \<in> set (columns df)
      then bind (getitem df ''smoker'')
             (\<lambda>c. Inr (setitem df ''smoker'' (fit_transform_column c)))
      else Inr df)"

definition load_data ::
  "('b \<Rightarrow> 'e) \<Rightarrow> ('b \<Rightarrow> 'e \<Rightarrow> error + 'f::linorder dataframe) \<Rightarrow> 'b filesystem
     \<Rightarrow> error + 'f dataframe" where
  \<comment> \<open>\<open>detect\<close> is \<^verbatim>\<open>chardet.detect(...)['encoding']\<close>, \<open>read_csv\<close> is
      \<^verbatim>\<open>pd.read_csv\<close> on the bytes of the file\<close>
  "load_data detect read_csv fs =
     bind (read_file fs train_DATA_PATH) (\<lambda>raw.
       let encoding = detect raw in
       bind (read_file fs train_DATA_PATH) (\<lambda>raw'.
         bind (read_csv raw' encoding) encode))"

definition train_model ::
  "('f dataframe \<Rightarrow> 'f column \<Rightarrow> error + 'm) \<Rightarrow> 'f dataframe \<Rightarrow> error + 'm" where
  \<comment> \<open>\<open>fit X y\<close> is \<^verbatim>\<open>LogisticRegression(max_iter=1000).fit(X, y)\<close>, returning the
      fitted model\<close>
  "train_model fit df =
     bind (drop_columns df [''target'', ''patient_id'']) (\<lambda>X.
       bind (getitem df ''target'') (\<lambda>y.
         fit X y))"

definition dirname :: "string \<Rightarrow> string" where
  \<comment> \<open>\<^verbatim>\<open>posixpath.dirname\<close>\<close>
  "dirname p =
     (let head = rev (dropWhile (\<lambda>c. c \<noteq> CHR ''/'') (rev p))
      in if head \<noteq> [] \<and> \<not> list_all (\<lambda>c. c = CHR ''/'') head
         then rev (dropWhile (\<lambda>c. c = CHR ''/'') (rev head))
         else head)"

definition parents :: "string \<Rightarrow> string list" where
  \<comment> \<open>the proper ancestors of a path, outermost first\<close>
  "parents d = map (\<lambda>i. take i d) (filter (\<lambda>i. d ! i = CHR ''/'') [1..<length d])"

definition makedirs :: "'b filesystem \<Rightarrow> string \<Rightarrow> error + 'b filesystem" where
  \<comment> \<open>\<^verbatim>\<open>os.makedirs(d, exist_ok=True)\<close>\<close>
  "makedirs fs d =
     (if list_ex (\<lambda>a. files fs a \<noteq> None) (parents d)
      then Inl (Error ''NotADirectoryError'' (''[Errno 20] Not a directory: '' @ py_repr d))
      else if files fs d \<noteq> None
      then Inl (FileExistsError (''[Errno 17] File exists: '' @ py_repr d))
      else Inr (fs\<lparr>dirs := dirs fs \<union> set (parents d) \<union> {d}\<rparr>))"

definition joblib_dump :: "('m \<Rightarrow> 'b) \<Rightarrow> 'm \<Rightarrow> 'b filesystem \<Rightarrow> string \<Rightarrow> error + 'b filesystem" where
  \<comment> \<open>\<^verbatim>\<open>joblib.dump(model, p)\<close>; \<open>dump\<close> is the serialisation\<close>
  "joblib_dump dump m fs p =
     (if p \<in> dirs fs
      then Inl (IsADirectoryError (''[Errno 21] Is a directory: '' @ py_repr p))
      else Inr (fs\<lparr>files := (files fs)(p \<mapsto> dump m)\<rparr>))"

definition train_and_save_model ::
  "('b \<Rightarrow> 'e) \<Rightarrow> ('b \<Rightarrow> 'e \<Rightarrow> error + 'f::linorder dataframe)
     \<Rightarrow> ('f dataframe \<Rightarrow> 'f column \<Rightarrow> error + 'm) \<Rightarrow> ('m \<Rightarrow> 'b)
     \<Rightarrow> 'b filesystem \<Rightarrow> (error + unit) \<times> 'b filesystem" where
  \<comment> \<open>the outcome of the run (an uncaught exception, or normal return) and the
      filesystem it leaves behind\<close>
  "train_and_save_model detect read_csv fit dump fs =
     (case load_data detect read_csv fs of
        Inl e \<Rightarrow> (Inl e, fs)
      | Inr df \<Rightarrow>
          (case train_model fit df of
             Inl e \<Rightarrow> (Inl e, fs)
           | Inr model \<Rightarrow>
               (case makedirs fs (dirname train_MODEL_PATH) of
                  Inl e \<Rightarrow> (Inl e, fs)
                | Inr fs1 \<Rightarrow>
                    (case joblib_dump dump model fs1 train_MODEL_PATH of
                       Inl e \<Rightarrow> (Inl e, fs1)
                     | Inr fs2 \<Rightarrow> (Inr (), fs2)))))"

section \<open>The serving endpoint\<close>

subsection \<open>Values of the endpoint\<close>

record 'f PredictionRequest =
  age :: 'f
  bmi :: 'f
  blood_pressure :: 'f
  cholesterol :: 'f
  glucose :: 'f
  smoker :: int

text \<open>A value of the \<^verbatim>\<open>data\<close> dictionary: a Python float or a Python int.\<close>

datatype 'f scalar = PyFloat 'f | PyInt int

datatype 'f json =
    JInt int
  | JFloat 'f
  | JString string
  | JArray "'f json list"
  | JObject "(string \<times> 'f json) list"

text \<open>
  The unpickled model: an object with the two capabilities the handler calls. Each takes
  a frame and returns one entry per row (a label of type \<open>'l\<close>, or a row of
  probabilities), or raises.
\<close>

record ('f, 'l) model =
  model_predict :: "'f dataframe \<Rightarrow> error + 'l list"
  model_predict_proba :: "'f dataframe \<Rightarrow> error + 'f list list"

datatype http_exception = HTTPException (status_code: nat) (detail: string)

record 'f response =
  status :: nat
  body :: "'f json"

datatype 'f request = GET_health | POST_predict "'f PredictionRequest"

text \<open>The state of a started process: the module-level \<^verbatim>\<open>model\<close>.\<close>

record ('f, 'l) process =
  model :: "('f, 'l) model"

subsection \<open>Startup\<close>

definition joblib_load :: "('b \<Rightarrow> error + 'm) \<Rightarrow> 'b filesystem \<Rightarrow> string \<Rightarrow> error + 'm" where
  \<comment> \<open>\<^verbatim>\<open>joblib.load(p)\<close>; \<open>load\<close> is the deserialisation of the file's contents\<close>
  "joblib_load load fs p = bind (read_file fs p) load"

definition startup ::
  "('b \<Rightarrow> error + ('f, 'l) model) \<Rightarrow> 'b filesystem \<Rightarrow> error + ('f, 'l) process" where
  \<comment> \<open>lines 9 to 15 of \<^verbatim>\<open>api/main.py\<close>, run once when the module is imported\<close>
  "startup load fs =
     (if \<not> path_exists fs api_MODEL_PATH
      then Inl (FileNotFoundError (''Model file not found at '' @ api_MODEL_PATH))
      else bind (joblib_load load fs api_MODEL_PATH) (\<lambda>m. Inr \<lparr>model = m\<rparr>))"

subsection \<open>The two operations\<close>

definition health :: "(string \<times> 'f json) list" where
  "health = [(''status'', JString ''healthy'')]"

definition request_data :: "'f PredictionRequest \<Rightarrow> (string \<times> 'f scalar) list" where
  \<comment> \<open>the dictionary \<^verbatim>\<open>data\<close>, in insertion order\<close>
  "request_data r =
     [(''age'', PyFloat (age r)),
      (''bmi'', PyFloat (bmi r)),
      (''blood_pressure'', PyFloat (blood_pressure r)),
      (''cholesterol'', PyFloat (cholesterol r)),
      (''glucose'', PyFloat (glucose r)),
      (''smoker'', PyInt (smoker r))]"

definition DataFrame :: "(string \<times> 'f scalar) list \<Rightarrow> 'f dataframe" where
  \<comment> \<open>\<^verbatim>\<open>pd.DataFrame([data])\<close>: one row, the columns in the order of the keys\<close>
  "DataFrame d =
     map (\<lambda>kv. (fst kv, case snd kv of PyFloat x \<Rightarrow> FloatCol [Some x] | PyInt i \<Rightarrow> IntCol [i])) d"

definition item0 :: "'a list \<Rightarrow> error + 'a" where
  \<comment> \<open>\<^verbatim>\<open>a[0]\<close> on an array\<close>
  "item0 xs =
     (case xs of
        [] \<Rightarrow> Inl (IndexError ''index 0 is out of bounds for axis 0 with size 0'')
      | x # _ \<Rightarrow> Inr x)"

definition predict_body ::
  "('l \<Rightarrow> error + int) \<Rightarrow> ('f, 'l) model \<Rightarrow> 'f PredictionRequest
     \<Rightarrow> error + (string \<times> 'f json) list" where
  \<comment> \<open>the body of the \<^verbatim>\<open>try\<close> block; \<open>py_int\<close> is Python's \<^verbatim>\<open>int()\<close> on a label\<close>
  "predict_body py_int m r =
     (let data = request_data r;
          df = DataFrame data
      in bind (model_predict m df) (\<lambda>labels.
         bind (item0 labels) (\<lambda>prediction.
         bind (model_predict_proba m df) (\<lambda>rows.
         bind (item0 rows) (\<lambda>probability.
         bind (py_int prediction) (\<lambda>i.
           Inr [(''prediction'', JInt i),
                (''probability'', JArray (map JFloat probability))]))))))"

definition predict ::
  "('l \<Rightarrow> error + int) \<Rightarrow> ('f, 'l) model \<Rightarrow> 'f PredictionRequest
     \<Rightarrow> http_exception + (string \<times> 'f json) list" where
  "predict py_int m r =
     (case predict_body py_int m r of
        Inr d \<Rightarrow> Inr d
      | Inl e \<Rightarrow> Inl (HTTPException 500 (str e)))"

subsection \<open>The web framework around the operations\<close>

text \<open>
  FastAPI answers a returned dictionary with status 200 and the dictionary as JSON, and
  a raised \<^verbatim>\<open>HTTPException\<close> with its status code and the body
  \<^verbatim>\<open>{"detail": ...}\<close>. Requests reach the handlers after schema validation.
\<close>

definition respond :: "http_exception + (string \<times> 'f json) list \<Rightarrow> 'f response" where
  "respond r =
     (case r of
        Inr d \<Rightarrow> \<lparr>status = 200, body = JObject d\<rparr>
      | Inl (HTTPException sc dt) \<Rightarrow> \<lparr>status = sc, body = JObject [(''detail'', JString dt)]\<rparr>)"

fun handle ::
  "('l \<Rightarrow> error + int) \<Rightarrow> ('f, 'l) process \<Rightarrow> 'f request
     \<Rightarrow> 'f response \<times> ('f, 'l) process" where
  "handle py_int s GET_health = (respond (Inr health), s)"
| "handle py_int s (POST_predict r) = (respond (predict py_int (model s) r), s)"

fun serve ::
  "('l \<Rightarrow> error + int) \<Rightarrow> ('f, 'l) process \<Rightarrow> 'f request list
     \<Rightarrow> 'f response list \<times> ('f, 'l) process" where
  "serve py_int s [] = ([], s)"
| "serve py_int s (q # qs) =
     (case handle py_int s q of
        (a, s') \<Rightarrow> (case serve py_int s' qs of (as, s'') \<Rightarrow> (a # as, s'')))"

definition run_endpoint ::
  "('b \<Rightarrow> error + ('f, 'l) model) \<Rightarrow> ('l \<Rightarrow> error + int) \<Rightarrow> 'b filesystem
     \<Rightarrow> 'f request list \<Rightarrow> error + 'f response list" where
  \<comment> \<open>a whole run of the process: startup, then the requests in turn\<close>
  "run_endpoint load py_int fs qs =
     bind (startup load fs) (\<lambda>s. Inr (fst (serve py_int s qs)))"

subsection \<open>Python's integer conversion of a string label\<close>







text \<open>
  The encoding by ascending rank: the code of a label is the number of distinct labels of
  the column that are strictly smaller, and the code of a missing value is the number of
  distinct labels of the column.
\<close>

definition sorted_rank_codes :: "'a::linorder option list \<Rightarrow> int list" where
  "sorted_rank_codes ys =
     map (\<lambda>y. case y of
               Some v \<Rightarrow> int (card {c. Some c \<in> set ys \<and> c < v})
             | None \<Rightarrow> int (card {c. Some c \<in> set ys})) ys"

section \<open>Example inputs\<close>

text \<open>
  The two training rows and the request of the specification's concrete scenario, with
  \<^typ>\<open>real\<close> standing for the floating-point numbers, and small stand-ins for the
  library calls.
\<close>

definition example_frame :: "real dataframe" where
  "example_frame =
     [(''age'', IntCol [45, 30]),
      (''bmi'', FloatCol [Some (281 / 10), Some 22]),
      (''blood_pressure'', IntCol [130, 110]),
      (''cholesterol'', IntCol [210, 170]),
      (''glucose'', IntCol [95, 85]),
      (''smoker'', StrCol [Some ''yes'', Some ''no'']),
      (''target'', IntCol [1, 0]),
      (''patient_id'', IntCol [1, 2])]"

definition example_request :: "real PredictionRequest" where
  "example_request =
     \<lparr>age = 45, bmi = 281 / 10, blood_pressure = 130, cholesterol = 210, glucose = 95,
      smoker = 1\<rparr>"

definition example_model :: "(real, int) model" where
  "example_model =
     \<lparr>model_predict = (\<lambda>df. Inr [1]),
      model_predict_proba = (\<lambda>df. Inr [[1 / 4, 3 / 4]])\<rparr>"


definition failing_model :: "(real, int) model" where
  "failing_model =
     \<lparr>model_predict = (\<lambda>df. Inl (Error ''ValueError'' ''Input X contains NaN.'')),
      model_predict_proba = (\<lambda>df. Inr [[1 / 4, 3 / 4]])\<rparr>"

text \<open>File contents in the examples: 0 stands for the bytes of the CSV file, 1 for a pickled model.\<close>

definition example_fs :: "nat filesystem" where
  "example_fs =
     \<lparr>files = [train_DATA_PATH \<mapsto> 0],
      dirs = {''/opt'', ''/opt/airflow'', ''/opt/airflow/data''}\<rparr>"

definition example_served_fs :: "nat filesystem" where
  "example_served_fs = \<lparr>files = [api_MODEL_PATH \<mapsto> 1], dirs = {''models''}\<rparr>"

definition empty_fs :: "nat filesystem" where
  "empty_fs = \<lparr>files = Map.empty, dirs = {}\<rparr>"

definition frame_without_target :: "real dataframe" where
  "frame_without_target = filter (\<lambda>kc. fst kc \<noteq> ''target'') example_frame"

definition frame_without_patient_id :: "real dataframe" where
  "frame_without_patient_id = filter (\<lambda>kc. fst kc \<noteq> ''patient_id'') example_frame"

text \<open>A frame whose \<^verbatim>\<open>smoker\<close> column has a blank cell in its second row.\<close>

definition blank_smoker_frame :: "real dataframe" where
  "blank_smoker_frame =
     [(''smoker'', StrCol [Some ''yes'', None, Some ''no'']),
      (''target'', IntCol [1, 0, 0])]"

section \<open>Basic facts\<close>

lemma bind_Inl [simp]: "bind (Inl e) f = Inl e"
  by (simp add: bind_def)

lemma bind_Inr [simp]: "bind (Inr x) f = f x"
  by (simp add: bind_def)

lemma getitem_present:
  "k \<in> set (columns df) \<Longrightarrow> \<exists>c. map_of df k = Some c \<and> getitem df k = Inr c"
  by (cases "map_of df k") (auto simp: getitem_def columns_def map_of_eq_None_iff)

lemma map_of_Some_columns: "map_of df k = Some c \<Longrightarrow> k \<in> set (columns df)"
  unfolding columns_def by (metis map_of_eq_None_iff option.distinct(1) set_map)

lemma columns_setitem:
  "k \<in> set (columns df) \<Longrightarrow> columns (setitem df k c) = columns df"
  by (induction df) (fastforce simp: columns_def)+

lemma map_of_setitem:
  "map_of (setitem df k c) = (map_of df)(k \<mapsto> c)"
  by (induction df) (auto simp: fun_eq_iff)


lemma drop_columns_missing:
  "l \<in> set labels \<Longrightarrow> l \<notin> set (columns df) \<Longrightarrow>
   \<exists>m. drop_columns df labels = Inl (KeyError m)"
  by (auto simp: drop_columns_def Let_def filter_empty_conv)

section \<open>The artifact path\<close>











section \<open>The encode step\<close>

lemma encode_present:
  "map_of df ''smoker'' = Some c \<Longrightarrow>
   encode df = Inr (setitem df ''smoker'' (fit_transform_column c))"
  using map_of_Some_columns [of df "''smoker''" c]
  by (simp add: encode_def getitem_def)

lemma encode_absent:
  "''smoker'' \<notin> set (columns df) \<Longrightarrow> encode df = Inr df"
  by (simp add: encode_def)

lemma encode_total: "\<exists>df'. encode df = Inr df' \<and> columns df' = columns df"
proof (cases "''smoker'' \<in> set (columns df)")
  case True
  then obtain c where "map_of df ''smoker'' = Some c"
    using getitem_present by blast
  with True show ?thesis
    by (simp add: encode_present columns_setitem)
next
  case False
  then show ?thesis by (simp add: encode_absent)
qed

text \<open>In a sorted list without repetition, an element sits at the number of smaller elements.\<close>

lemma index_of_rank:
  "sorted xs \<Longrightarrow> distinct xs \<Longrightarrow> x \<in> set xs \<Longrightarrow>
   index_of x xs = card {c \<in> set xs. c < x}"
proof (induction xs)
  case Nil
  then show ?case by simp
next
  case (Cons a xs)
  show ?case
  proof (cases "x = a")
    case True
    with Cons.prems have "{c \<in> set (a # xs). c < x} = {}"
      by auto
    with True show ?thesis by simp
  next
    case False
    with Cons.prems have x: "x \<in> set xs" and lt: "a < x" and a: "a \<notin> set xs"
      by auto
    from Cons.prems x have ih: "index_of x xs = card {c \<in> set xs. c < x}"
      by (intro Cons.IH) auto
    from lt have "{c \<in> set (a # xs). c < x} = insert a {c \<in> set xs. c < x}"
      by auto
    moreover have "a \<notin> {c \<in> set xs. c < x}" using a by simp
    ultimately have "card {c \<in> set (a # xs). c < x} = Suc (card {c \<in> set xs. c < x})"
      by simp
    with False ih show ?thesis by simp
  qed
qed

lemma set_present: "set (present ys) = {v. Some v \<in> set ys}"
  by (induction ys rule: present.induct) auto

lemma index_of_Some:
  "v \<in> set xs \<Longrightarrow> index_of (Some v) (map Some xs @ zs) = index_of v xs"
  by (induction xs) auto

lemma index_of_None: "index_of None (map Some xs @ [None]) = length xs"
  by (induction xs) auto

lemma LabelEncoder_rank: "LabelEncoder_fit_transform ys = sorted_rank_codes ys"
proof -
  let ?S = "sort (remdups (present ys))"
  have S: "sorted ?S" "distinct ?S" "set ?S = {v. Some v \<in> set ys}"
    by (simp_all add: set_present)
  have "index_of y (classes_of ys) =
      (case y of Some v \<Rightarrow> card {c. Some c \<in> set ys \<and> c < v}
               | None \<Rightarrow> card {c. Some c \<in> set ys})"
    if y: "y \<in> set ys" for y
  proof (cases y)
    case None
    with y have "classes_of ys = map Some ?S @ [None]"
      by (simp add: classes_of_def)
    then have "index_of y (classes_of ys) = length ?S"
      using None by (simp add: index_of_None)
    also have "\<dots> = card (set ?S)"
      by (simp add: length_remdups_card_conv)
    finally show ?thesis
      using None S(3) by simp
  next
    case (Some v)
    with y S(3) have v: "v \<in> set ?S"
      by simp
    then have "index_of y (classes_of ys) = index_of v ?S"
      using Some by (simp add: classes_of_def index_of_Some)
    also have "\<dots> = card {c \<in> set ?S. c < v}"
      using S(1,2) v by (rule index_of_rank)
    also have "{c \<in> set ?S. c < v} = {c. Some c \<in> set ys \<and> c < v}"
      using S(3) by auto
    finally show ?thesis
      using Some by simp
  qed
  then have "int (index_of y (classes_of ys)) =
      (case y of Some v \<Rightarrow> int (card {c. Some c \<in> set ys \<and> c < v})
               | None \<Rightarrow> int (card {c. Some c \<in> set ys}))"
    if "y \<in> set ys" for y
    using that by (cases y) simp_all
  then show ?thesis
    by (simp add: LabelEncoder_fit_transform_def sorted_rank_codes_def)
qed

lemma fit_transform_column_rank:
  "fit_transform_column c =
     IntCol (case c of IntCol xs \<Rightarrow> sorted_rank_codes (map Some xs)
                     | FloatCol xs \<Rightarrow> sorted_rank_codes xs
                     | StrCol xs \<Rightarrow> sorted_rank_codes xs)"
  by (cases c) (simp_all add: LabelEncoder_rank)

text \<open>
  C3, as stated: the \<^verbatim>\<open>smoker\<close> column is replaced by codes in order of first
  appearance. On the column \<^verbatim>\<open>yes, no\<close> the encode step yields the codes 1, 0, whereas
  order of first appearance gives 0, 1.
\<close>

theorem encode_not_first_seen:
  "encode [(''smoker'', StrCol [Some ''yes'', Some ''no'']) :: string \<times> real column] =
     Inr [(''smoker'', IntCol [1, 0])] \<and>
   spec_first_seen_codes [Some ''yes'', Some ''no''] = [0, 1] \<and>
   encode [(''smoker'', StrCol [Some ''yes'', Some ''no'']) :: string \<times> real column] \<noteq>
     Inr [(''smoker'', IntCol (spec_first_seen_codes [Some ''yes'', Some ''no'']))]"
  by (simp add: encode_def columns_def getitem_def LabelEncoder_fit_transform_def
      classes_of_def spec_first_seen_codes_def less_eq_char_def less_char_def)

text \<open>
  C3, amended: for every loaded dataset that contains a \<^verbatim>\<open>smoker\<close> column, the encode
  step succeeds and replaces that column, in place, by integer codes assigned in
  ascending sorted order of the distinct labels: a label is mapped to the number of
  distinct labels of the column that are strictly smaller, and a missing value (a blank
  cell) to the number of distinct labels of the column, which is the highest code. The
  names and the order of the columns and every other column are unchanged.
\<close>

theorem encode_smoker_sorted_codes:
  assumes "map_of df ''smoker'' = Some c"
  shows "\<exists>codes df'.
           encode df = Inr df' \<and>
           df' = setitem df ''smoker'' (IntCol codes) \<and>
           columns df' = columns df \<and>
           map_of df' = (map_of df)(''smoker'' \<mapsto> IntCol codes) \<and>
           codes = (case c of IntCol xs \<Rightarrow> sorted_rank_codes (map Some xs)
                            | FloatCol xs \<Rightarrow> sorted_rank_codes xs
                            | StrCol xs \<Rightarrow> sorted_rank_codes xs)"
proof -
  from assms have "encode df = Inr (setitem df ''smoker'' (fit_transform_column c))"
    by (rule encode_present)
  moreover from assms have "''smoker'' \<in> set (columns df)"
    by (rule map_of_Some_columns)
  ultimately show ?thesis
    by (simp add: fit_transform_column_rank columns_setitem map_of_setitem)
qed

theorem encode_smoker_sorted_codes_witness:
  "map_of example_frame ''smoker'' = Some (StrCol [Some ''yes'', Some ''no'']) \<and>
   encode example_frame = Inr (setitem example_frame ''smoker'' (IntCol [1, 0])) \<and>
   map_of blank_smoker_frame ''smoker'' = Some (StrCol [Some ''yes'', None, Some ''no'']) \<and>
   encode blank_smoker_frame = Inr [(''smoker'', IntCol [1, 2, 0]), (''target'', IntCol [1, 0, 0])]"
proof -
  have h: "map_of example_frame ''smoker'' = Some (StrCol [Some ''yes'', Some ''no''])"
    by (simp add: example_frame_def)
  have k: "map_of blank_smoker_frame ''smoker'' = Some (StrCol [Some ''yes'', None, Some ''no''])"
    by (simp add: blank_smoker_frame_def)
  have c1: "sorted_rank_codes [Some ''yes'', Some ''no''] = [1, 0]"
    unfolding LabelEncoder_rank [symmetric]
    by (simp add: LabelEncoder_fit_transform_def classes_of_def less_eq_char_def less_char_def)
  have c2: "sorted_rank_codes [Some ''yes'', None, Some ''no''] = [1, 2, 0]"
    unfolding LabelEncoder_rank [symmetric]
    by (simp add: LabelEncoder_fit_transform_def classes_of_def less_eq_char_def less_char_def)
  from encode_smoker_sorted_codes [OF h] c1
  have a: "encode example_frame = Inr (setitem example_frame ''smoker'' (IntCol [1, 0]))"
    by simp
  from encode_smoker_sorted_codes [OF k] c2
  have "encode blank_smoker_frame = Inr (setitem blank_smoker_frame ''smoker'' (IntCol [1, 2, 0]))"
    by simp
  then have b: "encode blank_smoker_frame =
      Inr [(''smoker'', IntCol [1, 2, 0]), (''target'', IntCol [1, 0, 0])]"
    by (simp add: blank_smoker_frame_def)
  from h a k b show ?thesis
    by blast
qed

section \<open>The training run\<close>

lemma load_data_columns:
  assumes "read_file fs train_DATA_PATH = Inr raw"
    and "read_csv raw (detect raw) = Inr df0"
  shows "\<exists>df. load_data detect read_csv fs = Inr df \<and> columns df = columns df0"
proof -
  from assms have "load_data detect read_csv fs = encode df0"
    by (simp add: load_data_def)
  with encode_total [of df0] show ?thesis by simp
qed

lemma train_fail_keeps_fs:
  "load_data detect read_csv fs = Inr df \<Longrightarrow> train_model fit df = Inl e \<Longrightarrow>
   train_and_save_model detect read_csv fit dump fs = (Inl e, fs)"
  by (simp add: train_and_save_model_def)

lemma missing_column_aborts:
  assumes "read_file fs train_DATA_PATH = Inr raw"
    and "read_csv raw (detect raw) = Inr df0"
    and "l \<in> set [''target'', ''patient_id'']"
    and "l \<notin> set (columns df0)"
  shows "\<exists>m. train_and_save_model detect read_csv fit dump fs = (Inl (KeyError m), fs)"
proof -
  from load_data_columns [where fs = fs and raw = raw and read_csv = read_csv
      and detect = detect and ?df0.0 = df0, OF assms(1) assms(2)]
  obtain df where df: "load_data detect read_csv fs = Inr df"
    and c: "columns df = columns df0"
    by (elim exE conjE)
  from assms(4) c have "l \<notin> set (columns df)"
    by simp
  from drop_columns_missing [OF assms(3) this]
  obtain m where "drop_columns df [''target'', ''patient_id''] = Inl (KeyError m)"
    by (elim exE)
  then have "train_model fit df = Inl (KeyError m)"
    by (simp add: train_model_def)
  with df have "train_and_save_model detect read_csv fit dump fs = (Inl (KeyError m), fs)"
    by (rule train_fail_keeps_fs)
  then show ?thesis ..
qed

lemma failure_keeps_files:
  "fst (train_and_save_model detect read_csv fit dump fs) = Inl e \<Longrightarrow>
   files (snd (train_and_save_model detect read_csv fit dump fs)) = files fs"
  by (auto simp: train_and_save_model_def makedirs_def joblib_dump_def
      split: sum.splits if_splits)

text \<open>
  C5: a training run on a dataset without a \<^verbatim>\<open>target\<close> column ends in a propagated
  \<^verbatim>\<open>KeyError\<close> and leaves the filesystem as it was. More generally, whenever
  \<^verbatim>\<open>train_model\<close> raises, the run ends in that exception with the filesystem as it
  was, and a run that ends in any exception leaves every file as it was: the model file
  is only written after the fit has returned.
\<close>

theorem missing_target_aborts:
  "(read_file fs train_DATA_PATH = Inr raw \<and> read_csv raw (detect raw) = Inr df0 \<and>
    ''target'' \<notin> set (columns df0) \<longrightarrow>
      (\<exists>e. error_class e = ''KeyError'' \<and>
           train_and_save_model detect read_csv fit dump fs = (Inl e, fs))) \<and>
   (load_data detect read_csv fs = Inr df \<and> train_model fit df = Inl e' \<longrightarrow>
      train_and_save_model detect read_csv fit dump fs = (Inl e', fs)) \<and>
   (fst (train_and_save_model detect read_csv fit dump fs) = Inl e'' \<longrightarrow>
      files (snd (train_and_save_model detect read_csv fit dump fs)) = files fs)"
proof (intro conjI impI)
  assume "read_file fs train_DATA_PATH = Inr raw \<and> read_csv raw (detect raw) = Inr df0 \<and>
    ''target'' \<notin> set (columns df0)"
  then obtain m
    where "train_and_save_model detect read_csv fit dump fs = (Inl (KeyError m), fs)"
    using missing_column_aborts [where fs = fs and raw = raw and read_csv = read_csv
        and detect = detect and ?df0.0 = df0 and l = "''target''" and fit = fit and dump = dump]
    by auto
  then show "\<exists>e. error_class e = ''KeyError'' \<and>
           train_and_save_model detect read_csv fit dump fs = (Inl e, fs)"
    by (auto simp: KeyError_def)
next
  assume "load_data detect read_csv fs = Inr df \<and> train_model fit df = Inl e'"
  then show "train_and_save_model detect read_csv fit dump fs = (Inl e', fs)"
    by (simp add: train_fail_keeps_fs)
next
  assume "fst (train_and_save_model detect read_csv fit dump fs) = Inl e''"
  then show "files (snd (train_and_save_model detect read_csv fit dump fs)) = files fs"
    by (rule failure_keeps_files)
qed

theorem missing_target_aborts_witness:
  "read_file example_fs train_DATA_PATH = Inr 0 \<and>
   ''target'' \<notin> set (columns frame_without_target) \<and>
   train_and_save_model (\<lambda>raw. ''ascii'') (\<lambda>raw enc. Inr frame_without_target)
       (\<lambda>X y. Inr example_model) (\<lambda>m. 1) example_fs =
     (Inl (KeyError (py_repr_list [''target''] @ '' not found in axis'')), example_fs) \<and>
   files (snd (train_and_save_model (\<lambda>raw. ''ascii'') (\<lambda>raw enc. Inr frame_without_target)
       (\<lambda>X y. Inr example_model) (\<lambda>m. 1) example_fs)) = files example_fs"
proof -
  let ?detect = "\<lambda>raw :: nat. ''ascii''"
  let ?read = "\<lambda>(raw :: nat) (enc :: string). (Inr frame_without_target :: error + real dataframe)"
  let ?fit = "\<lambda>(X :: real dataframe) (y :: real column). (Inr example_model :: error + (real, int) model)"
  let ?dump = "\<lambda>m :: (real, int) model. 1 :: nat"
  let ?e = "KeyError (py_repr_list [''target''] @ '' not found in axis'')"
  let ?df = "setitem frame_without_target ''smoker'' (IntCol [1, 0])"
  have h1: "read_file example_fs train_DATA_PATH = Inr 0"
    by (simp add: read_file_def example_fs_def)
  have h3: "''target'' \<notin> set (columns frame_without_target)"
    by (simp add: frame_without_target_def example_frame_def columns_def)
  have enc: "encode frame_without_target = Inr ?df"
    by (simp add: encode_def columns_def getitem_def frame_without_target_def
        example_frame_def LabelEncoder_fit_transform_def classes_of_def
        less_eq_char_def less_char_def)
  have ld: "load_data ?detect ?read example_fs = Inr ?df"
    by (simp add: load_data_def h1 enc)
  have tm: "train_model ?fit ?df = Inl ?e"
    by (simp add: train_model_def drop_columns_def columns_def frame_without_target_def
        example_frame_def)
  note T = missing_target_aborts [where fs = example_fs and raw = 0 and detect = ?detect
      and read_csv = ?read and ?df0.0 = frame_without_target and fit = ?fit and dump = ?dump
      and df = ?df and e' = ?e and e'' = ?e]
  from T ld tm
  have r: "train_and_save_model ?detect ?read ?fit ?dump example_fs = (Inl ?e, example_fs)"
    by blast
  then have "fst (train_and_save_model ?detect ?read ?fit ?dump example_fs) = Inl ?e"
    by simp
  with T
  have "files (snd (train_and_save_model ?detect ?read ?fit ?dump example_fs)) = files example_fs"
    by blast
  with h1 h3 r show ?thesis
    by blast
qed

text \<open>
  C10: a training run on a dataset without a \<^verbatim>\<open>patient_id\<close> column ends in a
  propagated \<^verbatim>\<open>KeyError\<close> and leaves the filesystem as it was; the single
  \<^verbatim>\<open>drop\<close> raises exactly when \<^verbatim>\<open>target\<close> or \<^verbatim>\<open>patient_id\<close> is missing.
\<close>

theorem missing_patient_id_aborts:
  assumes "read_file fs train_DATA_PATH = Inr raw"
    and "read_csv raw (detect raw) = Inr df0"
    and "''patient_id'' \<notin> set (columns df0)"
  shows "(\<exists>e. error_class e = ''KeyError'' \<and>
            train_and_save_model detect read_csv fit dump fs = (Inl e, fs)) \<and>
         (\<forall>df :: 'a dataframe.
            (\<exists>e. drop_columns df [''target'', ''patient_id''] = Inl e) \<longleftrightarrow>
            (''target'' \<notin> set (columns df) \<or> ''patient_id'' \<notin> set (columns df)))"
proof (intro conjI allI)
  from assms obtain m
    where "train_and_save_model detect read_csv fit dump fs = (Inl (KeyError m), fs)"
    using missing_column_aborts [where fs = fs and raw = raw and read_csv = read_csv
        and detect = detect and ?df0.0 = df0 and l = "''patient_id''" and fit = fit and dump = dump]
    by auto
  then show "\<exists>e. error_class e = ''KeyError'' \<and>
            train_and_save_model detect read_csv fit dump fs = (Inl e, fs)"
    by (auto simp: KeyError_def)
next
  fix df :: "'a dataframe"
  show "(\<exists>e. drop_columns df [''target'', ''patient_id''] = Inl e) \<longleftrightarrow>
            (''target'' \<notin> set (columns df) \<or> ''patient_id'' \<notin> set (columns df))"
    by (auto simp: drop_columns_def Let_def)
qed

theorem missing_patient_id_aborts_witness:
  "read_file example_fs train_DATA_PATH = Inr 0 \<and>
   ''target'' \<in> set (columns frame_without_patient_id) \<and>
   ''patient_id'' \<notin> set (columns frame_without_patient_id) \<and>
   (\<exists>e. error_class e = ''KeyError'' \<and>
      train_and_save_model (\<lambda>raw. ''ascii'') (\<lambda>raw enc. Inr frame_without_patient_id)
          (\<lambda>X y. Inr example_model) (\<lambda>m. 1) example_fs = (Inl e, example_fs))"
proof -
  let ?detect = "\<lambda>raw :: nat. ''ascii''"
  let ?read = "\<lambda>(raw :: nat) (enc :: string). (Inr frame_without_patient_id :: error + real dataframe)"
  let ?fit = "\<lambda>(X :: real dataframe) (y :: real column). (Inr example_model :: error + (real, int) model)"
  let ?dump = "\<lambda>m :: (real, int) model. 1 :: nat"
  have h1: "read_file example_fs train_DATA_PATH = Inr 0"
    by (simp add: read_file_def example_fs_def)
  have h2: "?read 0 (?detect 0) = Inr frame_without_patient_id"
    by simp
  have h3: "''patient_id'' \<notin> set (columns frame_without_patient_id)"
    by (simp add: frame_without_patient_id_def example_frame_def columns_def)
  have h4: "''target'' \<in> set (columns frame_without_patient_id)"
    by (simp add: frame_without_patient_id_def example_frame_def columns_def)
  from missing_patient_id_aborts [where fs = example_fs and raw = 0 and detect = ?detect
      and read_csv = ?read and ?df0.0 = frame_without_patient_id and fit = ?fit
      and dump = ?dump, OF h1 h2 h3] h1 h3 h4
  show ?thesis
    by blast
qed

section \<open>The serving endpoint\<close>

lemma handle_state: "snd (handle py_int s q) = s"
  by (cases q) simp_all

lemma serve_map: "serve py_int s qs = (map (\<lambda>q. fst (handle py_int s q)) qs, s)"
proof (induction qs)
  case Nil
  show ?case by simp
next
  case (Cons q qs)
  obtain a s' where h: "handle py_int s q = (a, s')"
    by (cases "handle py_int s q")
  with handle_state [of py_int s q] have "s' = s" by simp
  with h Cons show ?case by simp
qed


text \<open>
  C2: when nothing exists at the artifact path, startup raises
  \<^verbatim>\<open>FileNotFoundError\<close> and the run of the process ends there, whatever requests
  are waiting; and every run that answers requests has found the file, has deserialised a
  model from it, and answers with that model.
\<close>

theorem startup_requires_model:
  "(\<not> path_exists fs api_MODEL_PATH \<longrightarrow>
      startup load fs = Inl (FileNotFoundError ''Model file not found at models/model.pkl'') \<and>
      run_endpoint load py_int fs qs =
        Inl (FileNotFoundError ''Model file not found at models/model.pkl'')) \<and>
   (\<forall>out. run_endpoint load py_int fs qs = Inr out \<longrightarrow>
      (\<exists>b m. files fs api_MODEL_PATH = Some b \<and> load b = Inr m \<and>
             startup load fs = Inr \<lparr>model = m\<rparr> \<and>
             out = fst (serve py_int \<lparr>model = m\<rparr> qs)))"
proof (intro conjI impI allI)
  assume "\<not> path_exists fs api_MODEL_PATH"
  then show "startup load fs = Inl (FileNotFoundError ''Model file not found at models/model.pkl'')"
    by (simp add: startup_def api_MODEL_PATH_def)
next
  assume "\<not> path_exists fs api_MODEL_PATH"
  then show "run_endpoint load py_int fs qs =
        Inl (FileNotFoundError ''Model file not found at models/model.pkl'')"
    by (simp add: run_endpoint_def startup_def api_MODEL_PATH_def)
next
  fix out
  assume r: "run_endpoint load py_int fs qs = Inr out"
  then obtain s where s: "startup load fs = Inr s" and out: "out = fst (serve py_int s qs)"
    by (cases "startup load fs") (auto simp: run_endpoint_def)
  from s obtain m where m: "joblib_load load fs api_MODEL_PATH = Inr m" and sm: "s = \<lparr>model = m\<rparr>"
    by (cases "joblib_load load fs api_MODEL_PATH") (auto simp: startup_def split: if_splits)
  from m obtain b where "files fs api_MODEL_PATH = Some b" "load b = Inr m"
    by (cases "files fs api_MODEL_PATH") (auto simp: joblib_load_def read_file_def split: if_splits)
  with s sm out
  show "\<exists>b m. files fs api_MODEL_PATH = Some b \<and> load b = Inr m \<and>
             startup load fs = Inr \<lparr>model = m\<rparr> \<and>
             out = fst (serve py_int \<lparr>model = m\<rparr> qs)"
    by auto
qed

theorem startup_requires_model_witness:
  "\<not> path_exists empty_fs api_MODEL_PATH \<and>
   run_endpoint (\<lambda>b. Inr example_model) Inr empty_fs [GET_health :: real request] =
     Inl (FileNotFoundError ''Model file not found at models/model.pkl'') \<and>
   run_endpoint (\<lambda>b. Inr example_model) Inr example_served_fs [GET_health] =
     Inr [\<lparr>status = 200, body = JObject [(''status'', JString ''healthy'')]\<rparr>] \<and>
   (\<exists>b. files example_served_fs api_MODEL_PATH = Some b) \<and>
   startup (\<lambda>b. Inr example_model) example_served_fs = Inr \<lparr>model = example_model\<rparr>"
proof -
  let ?load = "\<lambda>b :: nat. (Inr example_model :: error + (real, int) model)"
  let ?int = "Inr :: int \<Rightarrow> error + int"
  let ?qs = "[GET_health :: real request]"
  have h1: "\<not> path_exists empty_fs api_MODEL_PATH"
    by (simp add: path_exists_def empty_fs_def)
  have h2: "run_endpoint ?load ?int example_served_fs ?qs =
      Inr [\<lparr>status = 200, body = JObject [(''status'', JString ''healthy'')]\<rparr>]"
    by (simp add: run_endpoint_def startup_def path_exists_def example_served_fs_def
        joblib_load_def read_file_def respond_def health_def)
  from startup_requires_model [of empty_fs ?load ?int ?qs] h1
  have a: "run_endpoint ?load ?int empty_fs ?qs =
      Inl (FileNotFoundError ''Model file not found at models/model.pkl'')"
    by blast
  from startup_requires_model [of example_served_fs ?load ?int ?qs] h2
  have b: "\<exists>b m. files example_served_fs api_MODEL_PATH = Some b \<and> ?load b = Inr m \<and>
      startup ?load example_served_fs = Inr \<lparr>model = m\<rparr>"
    by blast
  then have c: "startup ?load example_served_fs = Inr \<lparr>model = example_model\<rparr>"
    by auto
  from h1 a h2 b c show ?thesis
    by blast
qed





text \<open>The steps of the \<^verbatim>\<open>try\<close> block at which an exception can arise, in order.\<close>

lemma predict_body_raises:
  "predict_body py_int m r = Inl e \<longleftrightarrow>
     model_predict m (DataFrame (request_data r)) = Inl e \<or>
     (\<exists>ls. model_predict m (DataFrame (request_data r)) = Inr ls \<and>
        (item0 ls = Inl e \<or>
         (\<exists>l. item0 ls = Inr l \<and>
            (model_predict_proba m (DataFrame (request_data r)) = Inl e \<or>
             (\<exists>ps. model_predict_proba m (DataFrame (request_data r)) = Inr ps \<and>
                (item0 ps = Inl e \<or> (\<exists>p. item0 ps = Inr p \<and> py_int l = Inl e)))))))"
  unfolding predict_body_def Let_def bind_def
  by (simp split: sum.splits)

text \<open>
  C6: whenever the body of the \<^verbatim>\<open>try\<close> block raises, the handler raises
  \<^verbatim>\<open>HTTPException\<close> with status 500 and the exception's message as detail and returns
  no result; the response is \<^verbatim>\<open>500 {"detail": message}\<close>, the process state is
  unchanged, and the requests that follow are answered as usual.
\<close>

theorem predict_failure_is_500:
  assumes "predict_body py_int (model s) r = Inl e"
  shows "predict py_int (model s) r = Inl (HTTPException 500 (str e)) \<and>
         handle py_int s (POST_predict r) =
           (\<lparr>status = 500, body = JObject [(''detail'', JString (str e))]\<rparr>, s) \<and>
         serve py_int s (POST_predict r # qs) =
           (\<lparr>status = 500, body = JObject [(''detail'', JString (str e))]\<rparr>
              # map (\<lambda>q. fst (handle py_int s q)) qs, s)"
  using assms by (simp add: serve_map predict_def respond_def)

theorem predict_failure_is_500_witness:
  "predict_body Inr failing_model example_request =
     Inl (Error ''ValueError'' ''Input X contains NaN.'') \<and>
   predict Inr failing_model example_request =
     Inl (HTTPException 500 ''Input X contains NaN.'') \<and>
   serve Inr \<lparr>model = failing_model\<rparr> [POST_predict example_request, GET_health] =
     ([\<lparr>status = 500, body = JObject [(''detail'', JString ''Input X contains NaN.'')]\<rparr>,
       \<lparr>status = 200, body = JObject [(''status'', JString ''healthy'')]\<rparr>],
      \<lparr>model = failing_model\<rparr>)"
proof -
  have h: "predict_body Inr (model \<lparr>model = failing_model\<rparr>) example_request =
      Inl (Error ''ValueError'' ''Input X contains NaN.'')"
    by (simp add: predict_body_def failing_model_def)
  from predict_failure_is_500 [OF h, of "[GET_health]"] h show ?thesis
    by (simp add: respond_def health_def)
qed

text \<open>
  C9: the health operation takes no input and is the constant dictionary
  \<^verbatim>\<open>{"status": "healthy"}\<close>; a health request is answered with it and status 200 in
  every process state, and leaves the state as it was.
\<close>

theorem health_static:
  "health = [(''status'', JString ''healthy'')] \<and>
   handle py_int s GET_health =
     (\<lparr>status = 200, body = JObject [(''status'', JString ''healthy'')]\<rparr>, s)"
  by (simp add: health_def respond_def)

end
